theory Spec2Isabelle
  imports Main "HOL-Library.Sublist"
begin

section \<open>Text primitives\<close>

text \<open>
  The script works on Python \<open>str\<close> values.  A text is modelled as a \<open>string\<close> whose
  characters are code points of the ASCII range; on that range the functions below are
  Python's \<open>str.isspace\<close>, \<open>str.isdigit\<close>, \<open>str.lower\<close>, \<open>str.upper\<close>,
  \<open>str.capitalize\<close>, \<open>str.strip\<close>, \<open>str.join\<close>, \<open>str.split\<close>, \<open>in\<close> and
  \<open>str.startswith\<close>.  Code points outside ASCII are outside the model.
\<close>

definition isspace :: "char \<Rightarrow> bool" where
  \<comment> \<open>tab, line feed, vertical tab, form feed, carriage return, the four separators
      \<open>0x1c\<close> to \<open>0x1f\<close>, and the space; also what \<open>\s\<close> matches in a \<open>str\<close> pattern\<close>
  "isspace c = (let n = (of_char c :: nat) in (9 \<le> n \<and> n \<le> 13) \<or> (28 \<le> n \<and> n \<le> 32))"

definition isdigit :: "char \<Rightarrow> bool" where
  \<comment> \<open>what \<open>\d\<close> matches\<close>
  "isdigit c = (let n = (of_char c :: nat) in 48 \<le> n \<and> n \<le> 57)"

definition lower_char :: "char \<Rightarrow> char" where
  "lower_char c = (let n = (of_char c :: nat) in if 65 \<le> n \<and> n \<le> 90 then char_of (n + 32) else c)"

definition upper_char :: "char \<Rightarrow> char" where
  "upper_char c = (let n = (of_char c :: nat) in if 97 \<le> n \<and> n \<le> 122 then char_of (n - 32) else c)"

definition lower :: "string \<Rightarrow> string" where
  "lower s = map lower_char s"

definition upper :: "string \<Rightarrow> string" where
  "upper s = map upper_char s"

definition capitalize :: "string \<Rightarrow> string" where
  \<comment> \<open>\<open>str.capitalize\<close>: the first character upper-cased, all the others lower-cased\<close>
  "capitalize s = (case s of [] \<Rightarrow> [] | c # cs \<Rightarrow> upper_char c # map lower_char cs)"

definition strip :: "string \<Rightarrow> string" where
  "strip s = rev (dropWhile isspace (rev (dropWhile isspace s)))"

fun join :: "string \<Rightarrow> string list \<Rightarrow> string" where
  "join sep [] = []"
| "join sep [x] = x"
| "join sep (x # y # ys) = x @ sep @ join sep (y # ys)"

definition startswith :: "string \<Rightarrow> string \<Rightarrow> bool" where
  "startswith s p = (take (length p) s = p)"

fun contains :: "string \<Rightarrow> string \<Rightarrow> bool" where
  \<comment> \<open>\<open>sub in s\<close>\<close>
  "contains [] sub = (sub = [])"
| "contains (c # cs) sub = (startswith (c # cs) sub \<or> contains cs sub)"

fun split_on :: "char \<Rightarrow> string \<Rightarrow> string list" where
  \<comment> \<open>\<open>s.split(sep)\<close> for a one-character separator: never an empty list\<close>
  "split_on sep [] = [[]]"
| "split_on sep (c # cs) =
     (if c = sep then [] # split_on sep cs
      else (case split_on sep cs of [] \<Rightarrow> [[c]] | p # ps \<Rightarrow> (c # p) # ps))"

section \<open>The keyword extractor\<close>

text \<open>
  \<open>re.findall(r'\[([^\]]+)\]', text)\<close>: scanning from the left, an opening bracket followed
  by at least one character other than a closing bracket and then a closing bracket is a
  match, whose group is the text in between; the scan goes on after the closing bracket.
  Where no match starts, the scan moves one character on.
\<close>

function findall_brackets :: "string \<Rightarrow> string list" where
  "findall_brackets [] = []"
| "findall_brackets (c # cs) =
     (if c = CHR ''[''
      then (let inner = takeWhile (\<lambda>x. x \<noteq> CHR '']'') cs;
                rest = dropWhile (\<lambda>x. x \<noteq> CHR '']'') cs
            in if inner \<noteq> [] \<and> rest \<noteq> [] then inner # findall_brackets (tl rest)
               else findall_brackets cs)
      else findall_brackets cs)"
  by pat_completeness auto
termination
proof (relation "measure length")
  show "wf (measure length)" by simp
next
  fix c :: char and cs inner rest :: string
  assume "rest = dropWhile (\<lambda>x. x \<noteq> CHR '']'') cs"
  then have "length rest \<le> length cs"
    by (simp add: length_dropWhile_le)
  then show "(tl rest, c # cs) \<in> measure length"
    by simp
qed simp_all

definition sub_number :: "string \<Rightarrow> string" where
  \<comment> \<open>\<open>re.sub(r'\s+\d+$', '', kw)\<close> with \<open>$\<close> at the very end of \<open>kw\<close>: a final run of
      digits together with the whole run of whitespace before it is removed, when both runs
      are non-empty\<close>
  "sub_number kw =
     (let r = rev kw;
          ds = takeWhile isdigit r;
          ws = takeWhile isspace (dropWhile isdigit r)
      in if ds \<noteq> [] \<and> ws \<noteq> [] then rev (dropWhile isspace (dropWhile isdigit r)) else kw)"

definition base_name :: "string \<Rightarrow> string" where
  \<comment> \<open>\<open>re.sub(r'\s+\d+$', '', kw)\<close>: \<open>$\<close> also matches just before a line feed that ends
      the text, and then the line feed stays\<close>
  "base_name kw =
     (if kw \<noteq> [] \<and> last kw = CHR 0x0A \<and> sub_number (butlast kw) \<noteq> butlast kw
      then sub_number (butlast kw) @ [CHR 0x0A]
      else sub_number kw)"

fun bracket_pass :: "string list \<Rightarrow> string list \<Rightarrow> string list" where
  \<comment> \<open>the loop over \<open>bracket_matches\<close>, \<open>keywords\<close> being the list built so far\<close>
  "bracket_pass keywords [] = keywords"
| "bracket_pass keywords (m # ms) =
     (let kw = strip m;
          base_kw = base_name kw
      in if base_kw \<noteq> [] \<and> base_kw \<notin> set keywords
         then bracket_pass (keywords @ [kw]) ms
         else bracket_pass keywords ms)"

definition known_keywords :: "string list" where
  "known_keywords =
     [''Accelerate'', ''Action'', ''Reaction'', ''Hidden'', ''Vision'', ''Legion'',
      ''Assault'', ''Defender'', ''Elusive'', ''Fearsome'', ''Mighty'', ''Temporary'',
      ''Quick Attack'', ''Overwhelm'', ''Lifesteal'', ''Barrier'', ''Spellshield'',
      ''Regeneration'', ''Tough'', ''Challenger'', ''Scout'', ''Fury'', ''Attune'',
      ''Deep'', ''Ephemeral'', ''Last Breath'', ''Nexus Strike'', ''Play'', ''Strike'',
      ''Support'', ''Vulnerable'', ''Capture'', ''Frostbite'', ''Immobile'', ''Recall'',
      ''Silence'', ''Stun'', ''Obliterate'', ''Rally'', ''Enlightened'', ''Reputation'',
      ''Lurk'', ''Predict'', ''Invoke'', ''Behold'', ''Augment'', ''Impact'', ''Formidable'',
      ''Equipment'', ''Attach'', ''Hallowed'', ''Evolve'', ''Husk'', ''Boon'', ''Flow'']"

definition startswith_ci :: "string \<Rightarrow> string \<Rightarrow> bool" where
  \<comment> \<open>the escaped keyword matched under \<open>re.IGNORECASE\<close> at the start of \<open>s\<close>\<close>
  "startswith_ci s kw = (length kw \<le> length s \<and> lower (take (length kw) s) = lower kw)"

definition bracket_form :: "string \<Rightarrow> string \<Rightarrow> bool" where
  \<comment> \<open>\<open>\[KW(?:\s+\d+)?\]\<close> matched at the start of \<open>s\<close>\<close>
  "bracket_form kw s =
     (case s of [] \<Rightarrow> False
      | c # r \<Rightarrow> c = CHR ''['' \<and> startswith_ci r kw \<and>
          (let r1 = drop (length kw) r;
               ws = takeWhile isspace r1;
               r2 = dropWhile isspace r1;
               ds = takeWhile isdigit r2;
               r3 = dropWhile isdigit r2
           in startswith r1 '']'' \<or> (ws \<noteq> [] \<and> ds \<noteq> [] \<and> startswith r3 '']'')))"

definition paren_form :: "string \<Rightarrow> string \<Rightarrow> bool" where
  \<comment> \<open>\<open>\(KW\<close> matched at the start of \<open>s\<close>\<close>
  "paren_form kw s = (case s of [] \<Rightarrow> False | c # r \<Rightarrow> c = CHR ''('' \<and> startswith_ci r kw)"

fun usage_search :: "string \<Rightarrow> string \<Rightarrow> bool" where
  \<comment> \<open>\<open>re.search(pattern, text, re.IGNORECASE)\<close> for the pattern built from \<open>kw\<close>: a match
      at some position of the text\<close>
  "usage_search kw [] = False"
| "usage_search kw (c # cs) =
     (bracket_form kw (c # cs) \<or> paren_form kw (c # cs) \<or> usage_search kw cs)"

definition known_step :: "string \<Rightarrow> string \<Rightarrow> string \<Rightarrow> string list \<Rightarrow> string list" where
  \<comment> \<open>the body of the loop over \<open>known_keywords\<close>, for the vocabulary entry \<open>kw\<close>\<close>
  "known_step text text_lower kw keywords =
     (if contains text_lower (lower kw) \<and> kw \<notin> set keywords
      then (if usage_search kw text
            then (if kw \<notin> set keywords then keywords @ [kw] else keywords)
            else keywords)
      else keywords)"

definition extract_keywords :: "string \<Rightarrow> string list" where
  "extract_keywords text =
     (let keywords = bracket_pass [] (findall_brackets text);
          text_lower = lower text
      in fold (known_step text text_lower) known_keywords keywords)"

section \<open>The row parser\<close>

text \<open>
  A row of \<open>csv.DictReader\<close> maps column names to cells.  A cell is a string, or \<open>None\<close>
  where the line had fewer fields than the header; calling \<open>strip\<close> on \<open>None\<close> raises
  \<open>AttributeError\<close>, the only exception that leaves \<open>parse_csv_row\<close>.
\<close>

datatype pyval = PStr string | PNone

datatype error = AttributeError

type_synonym row = "string \<rightharpoonup> pyval"

definition bindE :: "error + 'a \<Rightarrow> ('a \<Rightarrow> error + 'b) \<Rightarrow> error + 'b" where
  \<comment> \<open>sequencing: an exception of the first computation skips the rest\<close>
  "bindE m f = (case m of Inl e \<Rightarrow> Inl e | Inr x \<Rightarrow> f x)"

text \<open>
  A stat of a card is absent (\<open>None\<close>, JSON \<open>null\<close>), a number or a string.  Python's
  \<open>float\<close> is not modelled: the parser takes it as the parameter \<open>fl\<close>, with \<open>fl s = None\<close>
  where \<open>float(s)\<close> raises \<open>ValueError\<close> and \<open>fl s = Some v\<close> where it returns \<open>v\<close>;
  \<open>'n\<close> is the type of the numbers.
\<close>

datatype 'n stat = Absent | Num 'n | Sym string

record 'n stats =
  st_energy :: "'n stat"
  st_might :: "'n stat"
  st_power :: "'n stat"

record rules_text =
  rt_raw :: string
  rt_keywords :: "string list"

text \<open>
  The card record, with the keys of the output dictionary (prefixed \<open>c_\<close>); the three
  optional keys are \<open>None\<close> when the dictionary does not have them.
\<close>

record 'n card =
  c_id :: string
  c_name :: string
  c_rarity :: string
  c_domain :: string
  c_type_line :: string
  c_stats :: "'n stats"
  c_rules_text :: rules_text
  c_supertypes :: "string option"
  c_tags :: "string list option"
  c_image_url :: "string option"

definition get_strip :: "row \<Rightarrow> string \<Rightarrow> error + string" where
  \<comment> \<open>\<open>row.get(key, '').strip()\<close>\<close>
  "get_strip row key =
     (case row key of None \<Rightarrow> Inr (strip [])
      | Some (PStr s) \<Rightarrow> Inr (strip s)
      | Some PNone \<Rightarrow> Inl AttributeError)"

definition get_domain :: "row \<Rightarrow> string \<Rightarrow> string" where
  \<comment> \<open>\<open>row.get(key, '').strip().capitalize() if row.get(key) else ''\<close>\<close>
  "get_domain row key =
     (case row key of Some (PStr s) \<Rightarrow> (if s \<noteq> [] then capitalize (strip s) else [])
      | _ \<Rightarrow> [])"

definition not_nan :: "string \<Rightarrow> bool" where
  \<comment> \<open>\<open>x and x.lower() not in ['', 'nan']\<close>\<close>
  "not_nan x = (x \<noteq> [] \<and> lower x \<notin> set [[], ''nan''])"

fun get_subtypes :: "row \<Rightarrow> string list \<Rightarrow> string list \<Rightarrow> error + string list" where
  \<comment> \<open>the loop over the subtype columns, \<open>subtypes\<close> being the list built so far\<close>
  "get_subtypes row [] subtypes = Inr subtypes"
| "get_subtypes row (key # keys) subtypes =
     (case get_strip row key of Inl e \<Rightarrow> Inl e
      | Inr subtype \<Rightarrow>
          (if not_nan subtype then get_subtypes row keys (subtypes @ [lower subtype])
           else get_subtypes row keys subtypes))"

definition subtype_columns :: "string list" where
  "subtype_columns = [''Subtype 1'', ''Subtype 2'', ''Subtype 3'', ''Subtype 4'', ''Subtype 5'']"

definition parse_number :: "(string \<Rightarrow> 'n option) \<Rightarrow> string \<Rightarrow> 'n stat" where
  \<comment> \<open>\<open>Energy\<close> and \<open>Might\<close>: \<open>float(x) if x and x not in ['', '-'] else None\<close>, and
      \<open>None\<close> on \<open>ValueError\<close>\<close>
  "parse_number fl x =
     (if x \<noteq> [] \<and> x \<notin> set [[], ''-'']
      then (case fl x of Some v \<Rightarrow> Num v | None \<Rightarrow> Absent)
      else Absent)"

definition replace_C :: "string \<Rightarrow> string" where
  \<comment> \<open>\<open>s.replace('C', '')\<close>\<close>
  "replace_C s = filter (\<lambda>c. c \<noteq> CHR ''C'') s"

definition parse_power :: "(string \<Rightarrow> 'n option) \<Rightarrow> string \<Rightarrow> 'n stat" where
  "parse_power fl power' =
     (if power' \<noteq> [] \<and> power' \<notin> set [[], ''-'']
      then (if replace_C (upper power') = [] then Sym (upper power')
            else (case fl power' of Some v \<Rightarrow> Num v | None \<Rightarrow> Sym power'))
      else Absent)"

definition parse_csv_row :: "(string \<Rightarrow> 'n option) \<Rightarrow> row \<Rightarrow> error + 'n card option" where
  "parse_csv_row fl row =
     bindE (get_strip row ''Name'') (\<lambda>name.
     if name = [] then Inr None else
     bindE (get_strip row ''Collector Number'') (\<lambda>card_id.
     if card_id = [] then Inr None else
     let domain1 = get_domain row ''Domain 1'';
         domain2 = get_domain row ''Domain 2'';
         domains = (if not_nan domain1 then [domain1] else []) @
                   (if not_nan domain2 then [domain2] else []);
         domain_str = (if domains \<noteq> [] then join '', '' domains else ''Colorless'')
     in
     bindE (get_strip row ''types'') (\<lambda>types.
     let card_type = (if lower types = [] then ''unit'' else lower types) in
     bindE (get_subtypes row subtype_columns []) (\<lambda>subtypes.
     let type_line = (if subtypes \<noteq> [] then card_type @ '' - '' @ join '', '' subtypes
                      else card_type)
     in
     bindE (get_strip row ''supertypes'') (\<lambda>supertypes.
     bindE (get_strip row ''Energy'') (\<lambda>energy.
     bindE (get_strip row ''Might'') (\<lambda>might.
     bindE (get_strip row ''Power'') (\<lambda>power'.
     let energy_val = parse_number fl energy;
         might_val = parse_number fl might;
         power_val = parse_power fl power'
     in
     bindE (get_strip row ''Description'') (\<lambda>description.
     bindE (get_strip row ''ALT TEXT'') (\<lambda>alt_text.
     let keywords = extract_keywords description in
     bindE (get_strip row ''Rarity'') (\<lambda>rarity.
     let card_data =
           \<lparr> c_id = card_id, c_name = name, c_rarity = lower rarity,
             c_domain = domain_str, c_type_line = type_line,
             c_stats = \<lparr> st_energy = energy_val, st_might = might_val, st_power = power_val \<rparr>,
             c_rules_text = \<lparr> rt_raw = description, rt_keywords = keywords \<rparr>,
             c_supertypes = (if not_nan supertypes then Some (lower supertypes) else None),
             c_tags = None, c_image_url = None \<rparr>
     in
     bindE (get_strip row ''Tags'') (\<lambda>tags.
     Inr (Some (if not_nan tags
                then card_data \<lparr> c_tags := Some (filter (\<lambda>t. t \<noteq> [])
                                                  (map strip (split_on CHR '','' tags))) \<rparr>
                else card_data))))))))))))))"

section \<open>The image map\<close>

fun load_images_loop :: "row list \<Rightarrow> (string \<rightharpoonup> string) \<Rightarrow> error + (string \<rightharpoonup> string)" where
  \<comment> \<open>the loop over the rows of the images CSV, \<open>images\<close> being the dictionary built so far\<close>
  "load_images_loop [] images = Inr images"
| "load_images_loop (row # rows) images =
     (case get_strip row ''Name'' of Inl e \<Rightarrow> Inl e
      | Inr name \<Rightarrow>
     (case get_strip row ''Card Image URL'' of Inl e \<Rightarrow> Inl e
      | Inr image_url \<Rightarrow>
          (if name \<noteq> [] \<and> image_url \<noteq> []
           then load_images_loop rows
                  (images(name \<mapsto> (if startswith image_url ''/''
                                    then ''https://riftdecks.com'' @ image_url
                                    else image_url)))
           else load_images_loop rows images)))"

definition load_images :: "row list \<Rightarrow> error + (string \<rightharpoonup> string)" where
  "load_images rows = load_images_loop rows Map.empty"

definition manual_images :: "(string \<times> string) list" where
  "manual_images =
     [(''Seal of Rage'', ''https://cmsassets.rgpub.io/sanity/images/dsfx7636/game_data_live/fbdd14adb40b0ca46b89f476a356fa21413d812e-744x1039.png''),
      (''Seal of Focus'', ''https://cmsassets.rgpub.io/sanity/images/dsfx7636/game_data_live/288c300c4e4cb10ecfe6c3cbb543d0636b306852-744x1039.png''),
      (''Seal of Insight'', ''https://cmsassets.rgpub.io/sanity/images/dsfx7636/game_data_live/9ee0dc0221f83d569e0f458374e40f7238f306c2-744x1039.png''),
      (''Seal of Strength'', ''https://cmsassets.rgpub.io/sanity/images/dsfx7636/game_data_live/415644b2798348e3d7198ec900cc40aaa4eb8bdf-744x1039.png''),
      (''Seal of Discord'', ''https://cmsassets.rgpub.io/sanity/images/dsfx7636/game_data_live/dd8433e77e46ca77aaf0be35d1774218d9a2f037-744x1039.png''),
      (''Seal of Unity'', ''https://cmsassets.rgpub.io/sanity/images/dsfx7636/game_data_live/e6fbd41d69bc0d235ea7993d2e9fa74e75e17dff-744x1039.png''),
      (''Vayne, Hunter'', ''https://riftdecks.com/img/cards/riftbound/OGN/ogn-035-298_full.png''),
      (''Ahri, Inquisitive'', ''https://riftdecks.com/img/cards/riftbound/OGN/ogn-119-298_full.png''),
      (''Teemo, Strategist'', ''https://riftdecks.com/img/cards/riftbound/OGN/ogn-121-298_full.png''),
      (''Sett, Brawler'', ''https://riftdecks.com/img/cards/riftbound/OGN/ogn-164a-298_full.png''),
      (''Yasuo, Windrider'', ''https://riftdecks.com/img/cards/riftbound/OGN/ogn-205-298_full.png''),
      (''Darius, Executioner'', ''https://riftdecks.com/img/cards/riftbound/OGN/ogn-243-298_full.png'')]"

fun setdefaults :: "(string \<times> string) list \<Rightarrow> (string \<rightharpoonup> string) \<Rightarrow> (string \<rightharpoonup> string)" where
  \<comment> \<open>\<open>images.setdefault(name, url)\<close> for every item in turn\<close>
  "setdefaults [] images = images"
| "setdefaults ((name, url) # items) images =
     setdefaults items (case images name of None \<Rightarrow> images(name \<mapsto> url) | Some _ \<Rightarrow> images)"

section \<open>Legacy cards\<close>

text \<open>
  A legacy card is an object of the legacy JSON file.  It is modelled with the keys the
  script reads (prefixed \<open>l_\<close>), each \<open>None\<close> when the object does not have it, and with
  values of the types the script expects: strings, lists of strings, stats, and the two
  nested objects \<open>stats\<close> and \<open>ability\<close>.
\<close>

record 'n legacy_stats =
  ls_might :: "'n stat"
  ls_power :: "'n stat"

record legacy_ability =
  la_raw_text :: "string option"
  la_effect_text :: "string option"
  la_keywords :: "string list option"

record 'n legacy_card =
  l_id :: "string option"
  l_name :: "string option"
  l_rarity :: "string option"
  l_domain :: "string option"
  l_type :: "string option"
  l_tags :: "string list option"
  l_cost :: "'n stat"
  l_stats :: "'n legacy_stats option"
  l_ability :: "legacy_ability option"
  l_image_url :: "string option"

definition get_or :: "'a option \<Rightarrow> 'a \<Rightarrow> 'a" where
  \<comment> \<open>\<open>d.get(key, default)\<close>, the first argument being \<open>None\<close> when the key is missing\<close>
  "get_or v d = (case v of None \<Rightarrow> d | Some x \<Rightarrow> x)"

definition convert_legacy_to_expert :: "'n legacy_card \<Rightarrow> 'n card" where
  "convert_legacy_to_expert legacy_card =
     (let card_type = lower (get_or (l_type legacy_card) ''unit'');
          tags = get_or (l_tags legacy_card) [];
          type_line = (if tags \<noteq> [] then card_type @ '' - '' @ join '', '' (map lower tags)
                       else card_type);
          ability = get_or (l_ability legacy_card)
                      \<lparr> la_raw_text = None, la_effect_text = None, la_keywords = None \<rparr>;
          raw_text = (if get_or (la_raw_text ability) [] \<noteq> [] then get_or (la_raw_text ability) []
                      else get_or (la_effect_text ability) []);
          keywords = get_or (la_keywords ability) [];
          stats = get_or (l_stats legacy_card) \<lparr> ls_might = Absent, ls_power = Absent \<rparr>
      in \<lparr> c_id = get_or (l_id legacy_card) [],
           c_name = get_or (l_name legacy_card) [],
           c_rarity = lower (get_or (l_rarity legacy_card) []),
           c_domain = get_or (l_domain legacy_card) ''Colorless'',
           c_type_line = type_line,
           c_stats = \<lparr> st_energy = l_cost legacy_card, st_might = ls_might stats,
                       st_power = ls_power stats \<rparr>,
           c_rules_text = \<lparr> rt_raw = raw_text, rt_keywords = keywords \<rparr>,
           c_supertypes = None, c_tags = None,
           c_image_url = Some (get_or (l_image_url legacy_card) []) \<rparr>)"

section \<open>The pipeline\<close>

fun csv_loop ::
  "(string \<Rightarrow> 'n option) \<Rightarrow> (string \<rightharpoonup> string) \<Rightarrow> row list \<Rightarrow> 'n card list \<Rightarrow> string set
     \<Rightarrow> error + ('n card list \<times> string set)" where
  \<comment> \<open>the loop over the rows of the primary CSV; \<open>cards\<close> and \<open>card_names_in_csv\<close> are
      what has been collected so far\<close>
  "csv_loop fl images [] cards card_names_in_csv = Inr (cards, card_names_in_csv)"
| "csv_loop fl images (row # rows) cards card_names_in_csv =
     (case parse_csv_row fl row of Inl e \<Rightarrow> Inl e
      | Inr None \<Rightarrow> csv_loop fl images rows cards card_names_in_csv
      | Inr (Some card') \<Rightarrow>
          (let card'' = (case images (c_name card') of None \<Rightarrow> card'
                         | Some url \<Rightarrow> card' \<lparr> c_image_url := Some url \<rparr>)
           in csv_loop fl images rows (cards @ [card''])
                (insert (lower (c_name card'')) card_names_in_csv)))"

fun legacy_loop :: "string set \<Rightarrow> 'n legacy_card list \<Rightarrow> 'n card list \<Rightarrow> 'n card list" where
  \<comment> \<open>the loop over the legacy cards\<close>
  "legacy_loop card_names_in_csv [] cards = cards"
| "legacy_loop card_names_in_csv (legacy_card # rest) cards =
     (let legacy_name = lower (get_or (l_name legacy_card) [])
      in if legacy_name \<noteq> [] \<and> legacy_name \<notin> card_names_in_csv
         then legacy_loop card_names_in_csv rest (cards @ [convert_legacy_to_expert legacy_card])
         else legacy_loop card_names_in_csv rest cards)"

definition main ::
  "(string \<Rightarrow> 'n option) \<Rightarrow> row list \<Rightarrow> 'n legacy_card list \<Rightarrow> row list \<Rightarrow> error + 'n card list" where
  \<comment> \<open>the list that \<open>main\<close> writes to the output file, from the rows of the images CSV,
      the legacy cards (the empty list when the legacy file could not be read) and the rows
      of the primary CSV\<close>
  "main fl image_rows legacy_cards csv_rows =
     bindE (load_images image_rows) (\<lambda>loaded.
     let images = setdefaults manual_images loaded in
     bindE (csv_loop fl images csv_rows [] {}) (\<lambda>(cards, card_names_in_csv).
     Inr (legacy_loop card_names_in_csv legacy_cards cards)))"

section \<open>Words of the specification\<close>

definition string_valued :: "row \<Rightarrow> bool" where
  \<comment> \<open>a row mapping whose cells are all strings\<close>
  "string_valued row = (\<forall>key. row key \<noteq> Some PNone)"

definition trimmed :: "row \<Rightarrow> string \<Rightarrow> string" where
  \<comment> \<open>the trimmed text of a column, empty when the row has no text there\<close>
  "trimmed row key = (case row key of Some (PStr s) \<Rightarrow> strip s | _ \<Rightarrow> [])"

definition field_absent :: "string \<Rightarrow> bool" where
  \<comment> \<open>a trimmed field that is empty or reads \<open>nan\<close> in any letter case\<close>
  "field_absent t = (t = [] \<or> lower t = ''nan'')"

definition parsed_field :: "('n card \<Rightarrow> 'a) \<Rightarrow> error + 'n card option \<Rightarrow> 'a option" where
  \<comment> \<open>a field of the record that the row parser returned, if it returned one\<close>
  "parsed_field f r = (case r of Inr (Some c) \<Rightarrow> Some (f c) | _ \<Rightarrow> None)"

section \<open>Inputs of the examples\<close>

definition digits_float :: "string \<Rightarrow> int option" where
  \<comment> \<open>an instance of the parameter \<open>fl\<close> for the examples: a run of at most fifteen decimal
      digits is read as \<open>float\<close> reads it (the value is that whole number), and no other
      text is read; the examples use it on digit runs and on texts that are no float
      literal\<close>
  "digits_float s =
     (if s \<noteq> [] \<and> list_all isdigit s \<and> length s \<le> 15
      then Some (foldl (\<lambda>n c. 10 * n + (of_char c - 48)) 0 s)
      else None)"

section \<open>Evaluation of the character functions\<close>

text \<open>
  The character tests and case conversions on the bits of a character, for evaluation.
\<close>

lemma isspace_code [code]:
  "isspace (Char b0 b1 b2 b3 b4 b5 b6 b7) =
     (\<not> b7 \<and> \<not> b6 \<and>
      ((\<not> b5 \<and> ((\<not> b4 \<and> b3 \<and> ((\<not> b2 \<and> (b0 \<or> b1)) \<or> (b2 \<and> \<not> b1))) \<or> (b4 \<and> b3 \<and> b2))) \<or>
       (b5 \<and> \<not> b4 \<and> \<not> b3 \<and> \<not> b2 \<and> \<not> b1 \<and> \<not> b0)))"
  by (cases b0; cases b1; cases b2; cases b3; cases b4; cases b5; cases b6; cases b7;
      simp add: isspace_def)

lemma isdigit_code [code]:
  "isdigit (Char b0 b1 b2 b3 b4 b5 b6 b7) =
     (\<not> b7 \<and> \<not> b6 \<and> b5 \<and> b4 \<and> (\<not> b3 \<or> (\<not> b2 \<and> \<not> b1)))"
  by (cases b0; cases b1; cases b2; cases b3; cases b4; cases b5; cases b6; cases b7;
      simp add: isdigit_def)

lemma lower_char_code [code]:
  "lower_char (Char b0 b1 b2 b3 b4 b5 b6 b7) =
     (if \<not> b7 \<and> b6 \<and> \<not> b5 \<and> (b0 \<or> b1 \<or> b2 \<or> b3 \<or> b4) \<and> \<not> (b4 \<and> b3 \<and> (b2 \<or> (b1 \<and> b0)))
      then Char b0 b1 b2 b3 b4 True b6 b7 else Char b0 b1 b2 b3 b4 b5 b6 b7)"
  by (cases b0; cases b1; cases b2; cases b3; cases b4; cases b5; cases b6; cases b7;
      simp add: lower_char_def char_of_eq_iff)

lemma upper_char_code [code]:
  "upper_char (Char b0 b1 b2 b3 b4 b5 b6 b7) =
     (if \<not> b7 \<and> b6 \<and> b5 \<and> (b0 \<or> b1 \<or> b2 \<or> b3 \<or> b4) \<and> \<not> (b4 \<and> b3 \<and> (b2 \<or> (b1 \<and> b0)))
      then Char b0 b1 b2 b3 b4 False b6 b7 else Char b0 b1 b2 b3 b4 b5 b6 b7)"
  by (cases b0; cases b1; cases b2; cases b3; cases b4; cases b5; cases b6; cases b7;
      simp add: upper_char_def char_of_eq_iff)

section \<open>Properties of the keyword extractor\<close>

text \<open>
  C1 (amended).  For the text \<open>Deals damage. [Overwhelm] [Assault 2]\<close> the keyword extractor
  returns exactly \<open>Overwhelm\<close>, \<open>Assault 2\<close>, \<open>Assault\<close>, in that order and without
  duplicates: the bracket pass gives the first two entries, and the vocabulary pass, which
  looks for the unsuffixed name and accepts the bracket form with a number, adds \<open>Assault\<close>.
\<close>

theorem extract_keywords_overwhelm_assault:
  "extract_keywords ''Deals damage. [Overwhelm] [Assault 2]'' =
     [''Overwhelm'', ''Assault 2'', ''Assault''] \<and>
   bracket_pass [] (findall_brackets ''Deals damage. [Overwhelm] [Assault 2]'') =
     [''Overwhelm'', ''Assault 2''] \<and>
   distinct (extract_keywords ''Deals damage. [Overwhelm] [Assault 2]'')"
  by code_simp

text \<open>
  C1 as stated fails: the result is not the two-element list \<open>Overwhelm\<close>, \<open>Assault 2\<close>.
\<close>

theorem extract_keywords_overwhelm_assault_counterexample:
  "extract_keywords ''Deals damage. [Overwhelm] [Assault 2]'' \<noteq> [''Overwhelm'', ''Assault 2'']"
  by code_simp

text \<open>
  C2 (the code departs from the claim).  A text that carries the same numbered keyword in
  brackets twice gets that keyword twice: the bracket pass looks the base name \<open>Assault\<close>
  up in the list, but the list holds \<open>Assault 2\<close>.
\<close>

theorem extract_keywords_duplicate:
  "extract_keywords ''[Assault 2] [Assault 2]'' = [''Assault 2'', ''Assault 2'', ''Assault''] \<and>
   \<not> distinct (extract_keywords ''[Assault 2] [Assault 2]'')"
  by code_simp

subsection \<open>The bracket pass\<close>

lemma bracket_pass_append:
  "\<exists>ys. bracket_pass acc ms = acc @ ys \<and> subseq ys (map strip ms)"
proof (induction ms arbitrary: acc)
  case Nil
  show ?case by simp
next
  case (Cons m ms)
  show ?case
  proof (cases "base_name (strip m) \<noteq> [] \<and> base_name (strip m) \<notin> set acc")
    case True
    from Cons.IH [of "acc @ [strip m]"] obtain ys
      where ys: "bracket_pass (acc @ [strip m]) ms = (acc @ [strip m]) @ ys"
        "subseq ys (map strip ms)"
      by blast
    from True ys have "bracket_pass acc (m # ms) = acc @ (strip m # ys)"
      by simp
    moreover from ys have "subseq (strip m # ys) (map strip (m # ms))"
      by simp
    ultimately show ?thesis by blast
  next
    case False
    from Cons.IH [of acc] obtain ys
      where ys: "bracket_pass acc ms = acc @ ys" "subseq ys (map strip ms)"
      by blast
    from False ys have "bracket_pass acc (m # ms) = acc @ ys"
      by auto
    moreover from ys have "subseq ys (map strip (m # ms))"
      by (simp add: list_emb_Cons)
    ultimately show ?thesis by blast
  qed
qed

lemma bracket_pass_snoc:
  "bracket_pass acc (ms @ [m]) =
     (if base_name (strip m) \<noteq> [] \<and> base_name (strip m) \<notin> set (bracket_pass acc ms)
      then bracket_pass acc ms @ [strip m] else bracket_pass acc ms)"
  by (induction ms arbitrary: acc) (simp_all add: Let_def)

lemma bracket_pass_keeps: "set acc \<subseteq> set (bracket_pass acc ms)"
  using bracket_pass_append [of acc ms] by auto

lemma bracket_pass_covers:
  "m \<in> set ms \<Longrightarrow> base_name (strip m) \<noteq> [] \<Longrightarrow>
   strip m \<in> set (bracket_pass acc ms) \<or> base_name (strip m) \<in> set (bracket_pass acc ms)"
proof (induction ms arbitrary: acc)
  case Nil
  then show ?case by simp
next
  case (Cons x ms)
  show ?case
  proof (cases "m = x")
    case True
    show ?thesis
    proof (cases "base_name (strip x) \<notin> set acc")
      case True
      with \<open>m = x\<close> Cons.prems
      have "bracket_pass acc (x # ms) = bracket_pass (acc @ [strip m]) ms"
        by simp
      with bracket_pass_keeps [of "acc @ [strip m]" ms] show ?thesis by auto
    next
      case False
      with \<open>m = x\<close> have "base_name (strip m) \<in> set acc" by simp
      with bracket_pass_keeps [of acc "x # ms"] show ?thesis by blast
    qed
  next
    case False
    with Cons.prems have "m \<in> set ms" by simp
    from Cons.IH [OF this Cons.prems(2)] show ?thesis
      by (simp add: Let_def)
  qed
qed

text \<open>
  C3 (amended).  In the bracket pass, run over the bracketed substrings \<open>ms\<close> of a text,
  every entry of the result is the trimmed inner text of a bracketed substring, kept with
  any trailing number, in the order of the text.  A bracketed substring is skipped when its
  base name (the trimmed text without a final run of whitespace and digits) is empty or is
  already an entry, and for every bracketed substring with a non-empty base name the
  result holds its trimmed text or its base name.  So \<open>[Assault]\<close> followed by
  \<open>[Assault 2]\<close> yields only \<open>Assault\<close>, while \<open>[Assault 2]\<close> followed by \<open>[Assault]\<close>
  yields both.
\<close>

theorem bracket_pass_by_base_name:
  "subseq (bracket_pass [] ms) (map strip ms) \<and>
   (\<forall>m. base_name (strip m) = [] \<or> base_name (strip m) \<in> set (bracket_pass [] ms)
        \<longrightarrow> bracket_pass [] (ms @ [m]) = bracket_pass [] ms) \<and>
   (\<forall>m \<in> set ms. base_name (strip m) \<noteq> []
        \<longrightarrow> strip m \<in> set (bracket_pass [] ms) \<or> base_name (strip m) \<in> set (bracket_pass [] ms)) \<and>
   bracket_pass [] (findall_brackets ''[Assault] [Assault 2]'') = [''Assault''] \<and>
   bracket_pass [] (findall_brackets ''[Assault 2] [Assault]'') = [''Assault 2'', ''Assault'']"
proof (intro conjI)
  show "subseq (bracket_pass [] ms) (map strip ms)"
    using bracket_pass_append [of "[]" ms] by auto
  show "\<forall>m. base_name (strip m) = [] \<or> base_name (strip m) \<in> set (bracket_pass [] ms)
          \<longrightarrow> bracket_pass [] (ms @ [m]) = bracket_pass [] ms"
    by (auto simp: bracket_pass_snoc)
  show "\<forall>m \<in> set ms. base_name (strip m) \<noteq> []
          \<longrightarrow> strip m \<in> set (bracket_pass [] ms) \<or> base_name (strip m) \<in> set (bracket_pass [] ms)"
    using bracket_pass_covers [of _ ms "[]"] by blast
  show "bracket_pass [] (findall_brackets ''[Assault] [Assault 2]'') = [''Assault'']"
    by code_simp
  show "bracket_pass [] (findall_brackets ''[Assault 2] [Assault]'') = [''Assault 2'', ''Assault'']"
    by code_simp
qed

theorem bracket_pass_by_base_name_witness:
  "subseq (bracket_pass [] [''Assault'', '' Assault 2 '']) (map strip [''Assault'', '' Assault 2 '']) \<and>
   base_name (strip '' Assault 2 '') \<in> set (bracket_pass [] [''Assault'']) \<and>
   bracket_pass [] ([''Assault''] @ ['' Assault 2 '']) = bracket_pass [] [''Assault''] \<and>
   '' Assault 2 '' \<in> set [''Assault'', '' Assault 2 ''] \<and>
   base_name (strip '' Assault 2 '') \<noteq> [] \<and>
   base_name (strip '' Assault 2 '') \<in> set (bracket_pass [] [''Assault'', '' Assault 2 ''])"
proof -
  have h1: "base_name (strip '' Assault 2 '') \<in> set (bracket_pass [] [''Assault''])"
    by code_simp
  have h2: "'' Assault 2 '' \<in> set [''Assault'', '' Assault 2 '']"
    by simp
  have h3: "base_name (strip '' Assault 2 '') \<noteq> []"
    by code_simp
  have h4: "strip '' Assault 2 '' \<notin> set (bracket_pass [] [''Assault'', '' Assault 2 ''])"
    by code_simp
  from bracket_pass_by_base_name [of "[''Assault'']"] h1
  have c1: "bracket_pass [] ([''Assault''] @ ['' Assault 2 '']) = bracket_pass [] [''Assault'']"
    by blast
  from bracket_pass_by_base_name [of "[''Assault'', '' Assault 2 '']"] h2 h3 h4
  have c2: "subseq (bracket_pass [] [''Assault'', '' Assault 2 ''])
              (map strip [''Assault'', '' Assault 2 ''])"
    and c3: "base_name (strip '' Assault 2 '') \<in> set (bracket_pass [] [''Assault'', '' Assault 2 ''])"
    by blast+
  from h1 h2 h3 c1 c2 c3 show ?thesis by blast
qed

text \<open>
  C3 as stated fails: in \<open>[Assault] [Assault 2]\<close> the inner text \<open>Assault 2\<close> of the second
  bracketed substring has not been added before, and the bracket pass does not add it.
\<close>

theorem bracket_pass_exact_string_counterexample:
  "''Assault 2'' \<in> set (map strip (findall_brackets ''[Assault] [Assault 2]'')) \<and>
   ''Assault 2'' \<notin> set (bracket_pass [] (findall_brackets ''[Assault] [Assault 2]''))"
  by code_simp

end
